theory Spec2Isabelle
  imports Main
begin

section \<open>Python string helpers used by the bot\<close>

text \<open>
  Strings are byte lists holding UTF-8 text. The helpers below follow the Python built-ins that
  \<^verbatim>\<open>youtube_audio_bot.py\<close> calls: \<^verbatim>\<open>str.join\<close>, \<^verbatim>\<open>str.startswith\<close>,
  \<^verbatim>\<open>str.replace\<close>, \<^verbatim>\<open>str.split('/')[-1]\<close>, \<^verbatim>\<open>str.strip\<close> and
  \<^verbatim>\<open>str(int)\<close> inside an f-string.
\<close>

definition apostrophe :: string where
  "apostrophe = [CHR 0x27]"

definition newline :: string where
  "newline = [CHR 0x0A]"

fun py_join :: "string \<Rightarrow> string list \<Rightarrow> string" where
  "py_join sep [] = []"
| "py_join sep [a] = a"
| "py_join sep (a # b # bs) = a @ sep @ py_join sep (b # bs)"

definition startswith :: "string \<Rightarrow> string \<Rightarrow> bool" where
  "startswith s p = (take (length p) s = p)"

text \<open>
  \<^verbatim>\<open>s.replace(old, new)\<close> for a non-empty \<open>old\<close>: scan from the left, replace each
  match and continue after it. The counter is the number of characters of the
  current match that are still to be skipped.
\<close>

fun py_replace_from :: "nat \<Rightarrow> string \<Rightarrow> string \<Rightarrow> string \<Rightarrow> string" where
  "py_replace_from k old new [] = []"
| "py_replace_from (Suc k) old new (c # cs) = py_replace_from k old new cs"
| "py_replace_from 0 old new (c # cs) =
     (if take (length old) (c # cs) = old
      then new @ py_replace_from (length old - 1) old new cs
      else c # py_replace_from 0 old new cs)"

definition py_replace :: "string \<Rightarrow> string \<Rightarrow> string \<Rightarrow> string" where
  "py_replace s old new =
     (if old = [] then new @ concat (map (\<lambda>c. c # new) s)
      else py_replace_from 0 old new s)"

definition last_segment :: "string \<Rightarrow> string" where
  \<comment> \<open>\<^verbatim>\<open>s.split('/')[-1]\<close>\<close>
  "last_segment s = rev (takeWhile (\<lambda>c. c \<noteq> CHR ''/'') (rev s))"

definition is_space :: "char \<Rightarrow> bool" where
  \<comment> \<open>the ASCII characters for which \<^verbatim>\<open>str.isspace\<close> holds\<close>
  "is_space c = (c \<in> {CHR 0x09, CHR 0x0A, CHR 0x0B, CHR 0x0C, CHR 0x0D,
                       CHR 0x1C, CHR 0x1D, CHR 0x1E, CHR 0x1F, CHR 0x20})"

text \<open>
  \<^verbatim>\<open>str.strip()\<close> removes every leading and trailing character for which
  \<^verbatim>\<open>str.isspace\<close> holds: the ASCII ones above and U+0085, U+00A0, U+1680,
  U+2000 to U+200A, U+2028, U+2029, U+202F, U+205F and U+3000, here in their
  UTF-8 encodings. The counter of \<open>lstrip_from\<close> is the number of bytes of the
  current whitespace character that are still to be dropped.
\<close>

definition space_codes :: "string list" where
  "space_codes =
     [[CHR 0x09], [CHR 0x0A], [CHR 0x0B], [CHR 0x0C], [CHR 0x0D],
      [CHR 0x1C], [CHR 0x1D], [CHR 0x1E], [CHR 0x1F], [CHR 0x20],
      [CHR 0xC2, CHR 0x85], [CHR 0xC2, CHR 0xA0],
      [CHR 0xE1, CHR 0x9A, CHR 0x80],
      [CHR 0xE2, CHR 0x80, CHR 0x80], [CHR 0xE2, CHR 0x80, CHR 0x81],
      [CHR 0xE2, CHR 0x80, CHR 0x82], [CHR 0xE2, CHR 0x80, CHR 0x83],
      [CHR 0xE2, CHR 0x80, CHR 0x84], [CHR 0xE2, CHR 0x80, CHR 0x85],
      [CHR 0xE2, CHR 0x80, CHR 0x86], [CHR 0xE2, CHR 0x80, CHR 0x87],
      [CHR 0xE2, CHR 0x80, CHR 0x88], [CHR 0xE2, CHR 0x80, CHR 0x89],
      [CHR 0xE2, CHR 0x80, CHR 0x8A],
      [CHR 0xE2, CHR 0x80, CHR 0xA8], [CHR 0xE2, CHR 0x80, CHR 0xA9],
      [CHR 0xE2, CHR 0x80, CHR 0xAF], [CHR 0xE2, CHR 0x81, CHR 0x9F],
      [CHR 0xE3, CHR 0x80, CHR 0x80]]"

definition space_at_head :: "string list \<Rightarrow> string \<Rightarrow> nat option" where
  \<comment> \<open>the length of the code in \<open>codes\<close> that \<open>s\<close> starts with, if any\<close>
  "space_at_head codes s =
     map_option length (find (\<lambda>p. take (length p) s = p) codes)"

fun lstrip_from :: "string list \<Rightarrow> nat \<Rightarrow> string \<Rightarrow> string" where
  "lstrip_from codes k [] = []"
| "lstrip_from codes (Suc k) (c # cs) = lstrip_from codes k cs"
| "lstrip_from codes 0 (c # cs) =
     (case space_at_head codes (c # cs) of
        None \<Rightarrow> c # cs
      | Some n \<Rightarrow> lstrip_from codes (n - 1) cs)"

definition strip :: "string \<Rightarrow> string" where
  "strip s =
     rev (lstrip_from (map rev space_codes) 0 (rev (lstrip_from space_codes 0 s)))"

definition digit_char :: "nat \<Rightarrow> char" where
  "digit_char d = ''0123456789'' ! d"

function str_nat :: "nat \<Rightarrow> string" where
  "str_nat n = (if n < 10 then [digit_char n] else str_nat (n div 10) @ [digit_char (n mod 10)])"
  by pat_completeness auto
termination
  by (relation "measure (\<lambda>n. n)") auto

definition str_int :: "int \<Rightarrow> string" where
  "str_int i = (if i < 0 then CHR ''-'' # str_nat (nat (- i)) else str_nat (nat i))"

section \<open>The playlists table\<close>

text \<open>
  \<^verbatim>\<open>init_db\<close> creates one table,
  \<^verbatim>\<open>playlists(user_id BIGINT, playlist_name TEXT, song_title TEXT, song_url TEXT,
  PRIMARY KEY (user_id, playlist_name, song_url))\<close>.
  A table is the list of its rows; the primary key is the triple \<open>pkey\<close>.
\<close>

record row =
  user_id :: int
  playlist_name :: string
  song_title :: string
  song_url :: string

type_synonym table = "row list"

definition pkey :: "row \<Rightarrow> int \<times> string \<times> string" where
  "pkey r = (user_id r, playlist_name r, song_url r)"

definition pk_distinct :: "table \<Rightarrow> bool" where
  \<comment> \<open>the PRIMARY KEY constraint as a property of a table\<close>
  "pk_distinct t = distinct (map pkey t)"

datatype error =
    IntegrityError      \<comment> \<open>\<^verbatim>\<open>psycopg2.IntegrityError\<close>: primary key violated\<close>
  | OperationalError    \<comment> \<open>any other fault of the storage layer\<close>
  | FileNotFoundError   \<comment> \<open>\<^verbatim>\<open>os.remove\<close> on a path that does not exist\<close>
  | TypeError           \<comment> \<open>a call with arguments the callee does not accept\<close>

definition sql_insert :: "table \<Rightarrow> row \<Rightarrow> error + table" where
  \<comment> \<open>\<^verbatim>\<open>INSERT INTO playlists (...) VALUES (%s, %s, %s, %s)\<close>\<close>
  "sql_insert t r =
     (if pkey r \<in> pkey ` set t then Inl IntegrityError else Inr (t @ [r]))"

definition in_playlist :: "int \<Rightarrow> string \<Rightarrow> row \<Rightarrow> bool" where
  \<comment> \<open>\<^verbatim>\<open>WHERE user_id = %s AND playlist_name = %s\<close>\<close>
  "in_playlist uid name r = (user_id r = uid \<and> playlist_name r = name)"

definition sql_select_songs :: "table \<Rightarrow> int \<Rightarrow> string \<Rightarrow> (string \<times> string) list" where
  \<comment> \<open>\<^verbatim>\<open>SELECT song_title, song_url FROM playlists
      WHERE user_id = %s AND playlist_name = %s AND song_title != ''\<close>\<close>
  "sql_select_songs t uid name =
     map (\<lambda>r. (song_title r, song_url r))
       (filter (\<lambda>r. in_playlist uid name r \<and> song_title r \<noteq> []) t)"

definition sql_delete :: "table \<Rightarrow> int \<Rightarrow> string \<Rightarrow> table" where
  \<comment> \<open>\<^verbatim>\<open>DELETE FROM playlists WHERE user_id = %s AND playlist_name = %s\<close>\<close>
  "sql_delete t uid name = filter (\<lambda>r. \<not> in_playlist uid name r) t"

definition rows_removed :: "table \<Rightarrow> int \<Rightarrow> string \<Rightarrow> nat" where
  \<comment> \<open>the number of rows the DELETE statement removes (the cursor's row count,
      which \<^verbatim>\<open>delete_playlist\<close> never reads)\<close>
  "rows_removed t uid name = length (filter (in_playlist uid name) t)"

definition sentinel :: "int \<Rightarrow> string \<Rightarrow> row" where
  \<comment> \<open>the row \<^verbatim>\<open>(user_id, playlist_name, '', '')\<close> that \<^verbatim>\<open>create_playlist\<close> inserts\<close>
  "sentinel uid name =
     \<lparr>user_id = uid, playlist_name = name, song_title = [], song_url = []\<rparr>"

section \<open>The world the handlers act on\<close>

datatype reply =
    Text string                     \<comment> \<open>\<^verbatim>\<open>reply_text(s)\<close>\<close>
  | AudioFile string string string  \<comment> \<open>\<^verbatim>\<open>reply_audio\<close>: path, title, file name\<close>

record world =
  db :: table               \<comment> \<open>committed contents of \<^verbatim>\<open>playlists\<close>\<close>
  files :: "string set"     \<comment> \<open>paths that exist on disk\<close>
  replies :: "reply list"   \<comment> \<open>messages sent to the user, oldest first\<close>

record ydl_opts =
  format :: string
  outtmpl :: string
  preferredcodec :: string
  preferredquality :: string
  default_search :: "string option"

datatype fetch_outcome =
    FetchRaises string "string list"
      \<comment> \<open>\<^verbatim>\<open>extract_info\<close> or \<^verbatim>\<open>prepare_filename\<close> raised: \<^verbatim>\<open>str(e)\<close>, files left on disk\<close>
  | Fetched "string option" string "string list"
      \<comment> \<open>\<^verbatim>\<open>info['title']\<close> if present, \<^verbatim>\<open>ydl.prepare_filename(info)\<close>, files written\<close>

text \<open>
  The collaborators outside the repository are parameters: the yt-dlp
  capability, and whether the storage layer faults at connect, execute or
  commit.
\<close>

record env =
  ydl :: "ydl_opts \<Rightarrow> string \<Rightarrow> fetch_outcome"
  connect_fault :: bool
  execute_fault :: bool
  commit_fault :: bool

type_synonym outcome = "world \<times> error option"
  \<comment> \<open>the world after the handler, and the exception that left it, if any\<close>

definition reply_text :: "world \<Rightarrow> string \<Rightarrow> world" where
  "reply_text w s = w\<lparr>replies := replies w @ [Text s]\<rparr>"

section \<open>download_audio\<close>

definition download_opts :: "string \<Rightarrow> int \<Rightarrow> ydl_opts" where
  "download_opts url_or_query uid =
     \<lparr>format = ''bestaudio/best'',
      outtmpl = ''/tmp/'' @ str_int uid @ ''_%(title)s.%(ext)s'',
      preferredcodec = ''mp3'',
      preferredquality = ''192'',
      default_search =
        (if \<not> startswith url_or_query ''http'' then Some ''ytsearch1:'' else None)\<rparr>"

definition download_audio ::
  "env \<Rightarrow> world \<Rightarrow> string \<Rightarrow> int \<Rightarrow> world \<times> string option \<times> string" where
  \<comment> \<open>returns \<^verbatim>\<open>(filename, title)\<close>, or \<^verbatim>\<open>(None, str(e))\<close> from the
      \<^verbatim>\<open>except Exception\<close> branch\<close>
  "download_audio e w url_or_query uid =
     (case ydl e (download_opts url_or_query uid) url_or_query of
        Fetched info_title prepared written \<Rightarrow>
          (w\<lparr>files := files w \<union> set written\<rparr>,
           Some (py_replace (py_replace prepared ''.webm'' ''.mp3'') ''.m4a'' ''.mp3''),
           (case info_title of None \<Rightarrow> ''Unknown'' | Some t \<Rightarrow> t))
      | FetchRaises msg written \<Rightarrow>
          (w\<lparr>files := files w \<union> set written\<rparr>, None, msg))"

definition truthy :: "string option \<Rightarrow> bool" where
  \<comment> \<open>Python truth value of \<^verbatim>\<open>filename\<close>: neither \<^verbatim>\<open>None\<close> nor the empty string\<close>
  "truthy f = (case f of None \<Rightarrow> False | Some s \<Rightarrow> s \<noteq> [])"

text \<open>
  An element of \<^verbatim>\<open>context.args\<close>: the transport splits the text of a command on
  whitespace, so an argument is not empty and holds no whitespace.
\<close>

definition is_token :: "string \<Rightarrow> bool" where
  "is_token a = (a \<noteq> [] \<and> (\<forall>c \<in> set a. \<not> is_space c))"

section \<open>The handlers\<close>

text \<open>
  Line 96 builds the message to send with
  \<^verbatim>\<open>Audio(audio_file, title=title, filename=f"{title}.mp3")\<close>. \<^verbatim>\<open>telegram.Audio\<close>
  is the class of python-telegram-bot 20 and later (the versions that have the
  \<^verbatim>\<open>Application\<close> and \<^verbatim>\<open>filters\<close> that line 6 imports): its constructor requires
  \<^verbatim>\<open>file_id\<close>, \<^verbatim>\<open>file_unique_id\<close> and \<^verbatim>\<open>duration\<close> and has no keyword
  \<^verbatim>\<open>filename\<close>, so this call raises \<^verbatim>\<open>TypeError\<close> for every file and title.
\<close>

definition telegram_Audio :: "string \<Rightarrow> string \<Rightarrow> string \<Rightarrow> error + reply" where
  "telegram_Audio audio_file title filename = Inl TypeError"

definition handle_message :: "env \<Rightarrow> world \<Rightarrow> int \<Rightarrow> string \<Rightarrow> outcome" where
  "handle_message e w uid raw =
     (let text = strip raw in
      if text = [] then
        (reply_text w ''Please send a YouTube link or song name.'', None)
      else
        let w1 = reply_text w ''Downloading... Please wait.'';
            (w2, filename, title) = download_audio e w1 text uid
        in case filename of
             Some fn \<Rightarrow>
               if fn \<noteq> [] \<and> fn \<in> files w2 then
                 (case telegram_Audio fn title (title @ ''.mp3'') of
                    Inl exn \<Rightarrow> (w2, Some exn)
                  | Inr audio \<Rightarrow>
                      let w3 = w2\<lparr>replies := replies w2 @ [audio]\<rparr>
                      in (w3\<lparr>files := files w3 - {fn}\<rparr>, None))
               else (reply_text w2 (''Failed to download: '' @ title), None)
           | None \<Rightarrow> (reply_text w2 (''Failed to download: '' @ title), None))"

definition create_playlist :: "env \<Rightarrow> world \<Rightarrow> int \<Rightarrow> string list \<Rightarrow> outcome" where
  "create_playlist e w uid args =
     (if args = [] then (reply_text w ''Usage: /create_playlist <name>'', None)
      else
        let name = py_join '' '' args in
        if connect_fault e then (w, Some OperationalError)
        else if execute_fault e then (w, Some OperationalError)
        else case sql_insert (db w) (sentinel uid name) of
               Inl IntegrityError \<Rightarrow>
                 (reply_text w (''Playlist '' @ apostrophe @ name @ apostrophe @ '' already exists.''), None)
             | Inl err \<Rightarrow> (w, Some err)
             | Inr t \<Rightarrow>
                 if commit_fault e then (w, Some OperationalError)
                 else (reply_text (w\<lparr>db := t\<rparr>)
                         (''Playlist '' @ apostrophe @ name @ apostrophe @ '' created.''), None))"

definition add_song_url :: "string \<Rightarrow> string" where
  "add_song_url song_input =
     (if startswith song_input ''http'' then song_input
      else ''https://www.youtube.com/watch?v='' @ song_input)"

definition add_song_title :: "int \<Rightarrow> string \<Rightarrow> string" where
  "add_song_title uid filename =
     py_replace (py_replace (last_segment filename) ''.mp3'' []) (str_int uid @ ''_'') []"

definition add_to_playlist :: "env \<Rightarrow> world \<Rightarrow> int \<Rightarrow> string list \<Rightarrow> outcome" where
  "add_to_playlist e w uid args =
     (if length args < 2 then
        (reply_text w ''Usage: /add_to_playlist <playlist_name> <song_link_or_name>'', None)
      else
        let name = hd args;
            song_input = py_join '' '' (tl args);
            (w1, filename, err) = download_audio e w song_input uid
        in case filename of
             None \<Rightarrow> (reply_text w1 (''Failed to add: '' @ err), None)
           | Some fn \<Rightarrow>
               if fn = [] then (reply_text w1 (''Failed to add: '' @ err), None)
               else
                 let url = add_song_url song_input;
                     title = add_song_title uid fn
                 in if connect_fault e then (w1, Some OperationalError)
                    else if execute_fault e then (w1, Some OperationalError)
                    else (case sql_insert (db w1)
                                 \<lparr>user_id = uid, playlist_name = name,
                                  song_title = title, song_url = url\<rparr> of
                            Inl exn \<Rightarrow> (w1, Some exn)
                          | Inr t \<Rightarrow>
                              if commit_fault e then (w1, Some OperationalError)
                              else
                                let w2 = w1\<lparr>db := t\<rparr> in
                                if fn \<notin> files w2 then (w2, Some FileNotFoundError)
                                else (reply_text (w2\<lparr>files := files w2 - {fn}\<rparr>)
                                        (''Added '' @ apostrophe @ title @ apostrophe @ '' to ''
                                           @ apostrophe @ name @ apostrophe @ ''.''), None)))"

definition song_line :: "string \<times> string \<Rightarrow> string" where
  "song_line s = ''- '' @ fst s @ '' ('' @ snd s @ '')''"

definition view_playlist :: "env \<Rightarrow> world \<Rightarrow> int \<Rightarrow> string list \<Rightarrow> outcome" where
  "view_playlist e w uid args =
     (if args = [] then (reply_text w ''Usage: /view_playlist <name>'', None)
      else
        let name = py_join '' '' args in
        if connect_fault e then (w, Some OperationalError)
        else if execute_fault e then (w, Some OperationalError)
        else
          let songs = sql_select_songs (db w) uid name in
          if songs = [] then
            (reply_text w (''No songs in '' @ apostrophe @ name @ apostrophe @ ''.''), None)
          else
            (reply_text w (''Playlist '' @ apostrophe @ name @ apostrophe @ '':'' @ newline
                             @ py_join newline (map song_line songs)), None))"

definition delete_playlist :: "env \<Rightarrow> world \<Rightarrow> int \<Rightarrow> string list \<Rightarrow> outcome" where
  "delete_playlist e w uid args =
     (if args = [] then (reply_text w ''Usage: /delete_playlist <name>'', None)
      else
        let name = py_join '' '' args in
        if connect_fault e then (w, Some OperationalError)
        else if execute_fault e then (w, Some OperationalError)
        else if commit_fault e then (w, Some OperationalError)
        else (reply_text (w\<lparr>db := sql_delete (db w) uid name\<rparr>)
                (''Playlist '' @ apostrophe @ name @ apostrophe @ '' deleted.''), None))"

definition start :: "world \<Rightarrow> outcome" where
  "start w =
     (reply_text w
        (''Welcome! Send a YouTube link or song name to download audio.'' @ newline
         @ ''Commands:'' @ newline
         @ ''/create_playlist <name>'' @ newline
         @ ''/add_to_playlist <playlist_name> <song_link_or_name>'' @ newline
         @ ''/view_playlist <name>'' @ newline
         @ ''/delete_playlist <name>''), None)"

text \<open>The handlers that \<^verbatim>\<open>main\<close> registers, as one dispatch on the inbound update.\<close>

datatype update =
    Start
  | CreatePlaylist "string list"
  | AddToPlaylist "string list"
  | ViewPlaylist "string list"
  | DeletePlaylist "string list"
  | Message string

fun handle_update :: "env \<Rightarrow> world \<Rightarrow> int \<Rightarrow> update \<Rightarrow> outcome" where
  "handle_update e w uid Start = start w"
| "handle_update e w uid (CreatePlaylist args) = create_playlist e w uid args"
| "handle_update e w uid (AddToPlaylist args) = add_to_playlist e w uid args"
| "handle_update e w uid (ViewPlaylist args) = view_playlist e w uid args"
| "handle_update e w uid (DeletePlaylist args) = delete_playlist e w uid args"
| "handle_update e w uid (Message raw) = handle_message e w uid raw"

section \<open>Concrete inputs\<close>

text \<open>
  A resolver that finds one song and writes its MP3 for owner 1, with no fault
  anywhere; the same with the network down; an empty world; one stored song.
\<close>

definition demo_env :: env where
  "demo_env =
     \<lparr>ydl = (\<lambda>opts q. Fetched (Some ''Song'') ''/tmp/1_Song.webm'' [''/tmp/1_Song.mp3'']),
      connect_fault = False, execute_fault = False, commit_fault = False\<rparr>"

definition offline_env :: env where
  "offline_env = demo_env\<lparr>ydl := (\<lambda>opts q. FetchRaises ''network is unreachable'' [])\<rparr>"

definition empty_world :: world where
  "empty_world = \<lparr>db = [], files = {}, replies = []\<rparr>"

definition chill_song :: row where
  "chill_song =
     \<lparr>user_id = 1, playlist_name = ''Chill'', song_title = ''Song'',
      song_url = ''https://example/track1''\<rparr>"

lemmas demo_defs = demo_env_def offline_env_def empty_world_def chill_song_def sentinel_def

lemmas strip_defs = strip_def space_codes_def space_at_head_def

section \<open>The resolver\<close>

lemma download_audio_raises:
  "ydl e (download_opts q uid) q = FetchRaises msg written \<Longrightarrow>
   download_audio e w q uid = (w\<lparr>files := files w \<union> set written\<rparr>, None, msg)"
  by (simp add: download_audio_def)

text \<open>
  Claim C9. Whenever the fetch and transcode capability raises, whatever the
  query and the owner, \<open>download_audio\<close> returns the failure as a value: no file
  name, and the text of the exception as the cause. Nothing propagates to the
  caller: the bare-text handler and the add command both finish normally, with
  a reply that carries the cause, and the table is untouched.
\<close>

theorem resolver_failure_is_returned:
  "ydl e (download_opts q uid) q = FetchRaises msg written \<longrightarrow>
     snd (download_audio e w q uid) = (None, msg)
     \<and> db (fst (download_audio e w q uid)) = db w
     \<and> replies (fst (download_audio e w q uid)) = replies w
     \<and> (strip raw = q \<and> q \<noteq> [] \<longrightarrow>
          snd (handle_message e w uid raw) = None
          \<and> last (replies (fst (handle_message e w uid raw))) = Text (''Failed to download: '' @ msg))
     \<and> (\<not> length args < 2 \<and> py_join '' '' (tl args) = q \<longrightarrow>
          snd (add_to_playlist e w uid args) = None
          \<and> replies (fst (add_to_playlist e w uid args)) = replies w @ [Text (''Failed to add: '' @ msg)]
          \<and> db (fst (add_to_playlist e w uid args)) = db w)"
  by (auto simp: download_audio_raises handle_message_def add_to_playlist_def reply_text_def Let_def)

theorem resolver_failure_is_returned_witness:
  "snd (download_audio offline_env empty_world ''lofi hip hop'' 1) = (None, ''network is unreachable'')
   \<and> handle_message offline_env empty_world 1 '' lofi hip hop '' =
       (\<lparr>db = [], files = {},
         replies = [Text ''Downloading... Please wait.'',
                    Text ''Failed to download: network is unreachable'']\<rparr>, None)
   \<and> add_to_playlist offline_env empty_world 1 [''Chill'', ''lofi'', ''hip'', ''hop''] =
       (\<lparr>db = [], files = {}, replies = [Text ''Failed to add: network is unreachable'']\<rparr>, None)"
  using resolver_failure_is_returned
    [of offline_env "''lofi hip hop''" 1 "''network is unreachable''" "[]" empty_world
        "'' lofi hip hop ''" "[''Chill'', ''lofi'', ''hip'', ''hop'']"]
  by (simp add: demo_defs download_audio_def handle_message_def add_to_playlist_def
      reply_text_def strip_defs)

section \<open>Listing a playlist\<close>

text \<open>
  Claim C6. For every owner and playlist name, \<open>view_playlist\<close> lists exactly
  the rows of that owner and name whose title is not empty. Its query returns
  one result per such row, none with an empty title, and nothing when the
  playlist has only its sentinel row or no row at all. The handler then
  replies, without changing the table: that there are no songs when the query
  returns nothing, and otherwise with a header and one line, title and url, for
  each such row in the order of the table.
\<close>

theorem view_playlist_lists_titled_rows:
  "set (sql_select_songs t uid name) =
     (\<lambda>r. (song_title r, song_url r)) `
       {r \<in> set t. user_id r = uid \<and> playlist_name r = name \<and> song_title r \<noteq> []}
   \<and> length (sql_select_songs t uid name) =
       length (filter (\<lambda>r. user_id r = uid \<and> playlist_name r = name \<and> song_title r \<noteq> []) t)
   \<and> (\<forall>s \<in> set (sql_select_songs t uid name). fst s \<noteq> [])
   \<and> ((\<forall>r \<in> set t. user_id r = uid \<and> playlist_name r = name \<longrightarrow> song_title r = [])
        \<longrightarrow> sql_select_songs t uid name = [])
   \<and> (args \<noteq> [] \<and> \<not> connect_fault e \<and> \<not> execute_fault e
        \<and> (\<forall>r \<in> set (db w). user_id r = uid \<and> playlist_name r = py_join '' '' args
               \<longrightarrow> song_title r = [])
        \<longrightarrow> view_playlist e w uid args =
              (reply_text w (''No songs in '' @ apostrophe @ py_join '' '' args @ apostrophe @ ''.''), None))
   \<and> (args \<noteq> [] \<and> \<not> connect_fault e \<and> \<not> execute_fault e
        \<longrightarrow> view_playlist e w uid args =
              (w\<lparr>replies := replies w @
                 [Text
                   (if filter (\<lambda>r. user_id r = uid \<and> playlist_name r = py_join '' '' args
                                  \<and> song_title r \<noteq> []) (db w) = []
                    then ''No songs in '' @ apostrophe @ py_join '' '' args @ apostrophe @ ''.''
                    else ''Playlist '' @ apostrophe @ py_join '' '' args @ apostrophe @ '':''
                         @ newline
                         @ py_join newline
                             (map (\<lambda>r. ''- '' @ song_title r @ '' ('' @ song_url r @ '')'')
                                (filter (\<lambda>r. user_id r = uid
                                             \<and> playlist_name r = py_join '' '' args
                                             \<and> song_title r \<noteq> []) (db w))))]\<rparr>,
               None))"
proof -
  have sel: "sql_select_songs t' uid n = []"
    if "\<forall>r \<in> set t'. user_id r = uid \<and> playlist_name r = n \<longrightarrow> song_title r = []" for t' n
    using that by (auto simp: sql_select_songs_def in_playlist_def filter_empty_conv)
  have "set (sql_select_songs t uid name) =
     (\<lambda>r. (song_title r, song_url r)) `
       {r \<in> set t. user_id r = uid \<and> playlist_name r = name \<and> song_title r \<noteq> []}"
    by (auto simp: sql_select_songs_def in_playlist_def)
  moreover have "length (sql_select_songs t uid name) =
       length (filter (\<lambda>r. user_id r = uid \<and> playlist_name r = name \<and> song_title r \<noteq> []) t)"
    by (simp add: sql_select_songs_def in_playlist_def)
  moreover have "\<forall>s \<in> set (sql_select_songs t uid name). fst s \<noteq> []"
    by (auto simp: sql_select_songs_def)
  moreover have "args \<noteq> [] \<and> \<not> connect_fault e \<and> \<not> execute_fault e
        \<and> (\<forall>r \<in> set (db w). user_id r = uid \<and> playlist_name r = py_join '' '' args
               \<longrightarrow> song_title r = [])
        \<longrightarrow> view_playlist e w uid args =
              (reply_text w (''No songs in '' @ apostrophe @ py_join '' '' args @ apostrophe @ ''.''), None)"
    using sel by (simp add: view_playlist_def Let_def)
  moreover have "args \<noteq> [] \<and> \<not> connect_fault e \<and> \<not> execute_fault e
        \<longrightarrow> view_playlist e w uid args =
              (w\<lparr>replies := replies w @
                 [Text
                   (if filter (\<lambda>r. user_id r = uid \<and> playlist_name r = py_join '' '' args
                                  \<and> song_title r \<noteq> []) (db w) = []
                    then ''No songs in '' @ apostrophe @ py_join '' '' args @ apostrophe @ ''.''
                    else ''Playlist '' @ apostrophe @ py_join '' '' args @ apostrophe @ '':''
                         @ newline
                         @ py_join newline
                             (map (\<lambda>r. ''- '' @ song_title r @ '' ('' @ song_url r @ '')'')
                                (filter (\<lambda>r. user_id r = uid
                                             \<and> playlist_name r = py_join '' '' args
                                             \<and> song_title r \<noteq> []) (db w))))]\<rparr>,
               None)"
    by (simp add: view_playlist_def sql_select_songs_def in_playlist_def song_line_def
        reply_text_def Let_def comp_def)
  ultimately show ?thesis
    using sel by blast
qed

theorem view_playlist_lists_titled_rows_witness:
  "sql_select_songs [sentinel 1 ''Chill'', chill_song] 1 ''Chill'' =
     [(''Song'', ''https://example/track1'')]
   \<and> sql_select_songs [sentinel 1 ''Chill''] 1 ''Chill'' = []
   \<and> view_playlist demo_env \<lparr>db = [sentinel 1 ''Chill''], files = {}, replies = []\<rparr> 1 [''Chill''] =
       (\<lparr>db = [sentinel 1 ''Chill''], files = {},
         replies = [Text (''No songs in '' @ apostrophe @ ''Chill'' @ apostrophe @ ''.'')]\<rparr>, None)
   \<and> view_playlist demo_env empty_world 1 [''Chill''] =
       (\<lparr>db = [], files = {},
         replies = [Text (''No songs in '' @ apostrophe @ ''Chill'' @ apostrophe @ ''.'')]\<rparr>, None)
   \<and> view_playlist demo_env
       \<lparr>db = [sentinel 1 ''Chill'', chill_song, sentinel 2 ''Chill''], files = {}, replies = []\<rparr>
       1 [''Chill''] =
       (\<lparr>db = [sentinel 1 ''Chill'', chill_song, sentinel 2 ''Chill''], files = {},
         replies = [Text (''Playlist '' @ apostrophe @ ''Chill'' @ apostrophe @ '':'' @ newline
                            @ ''- Song (https://example/track1)'')]\<rparr>, None)"
  using view_playlist_lists_titled_rows
    [of "[sentinel 1 ''Chill'', chill_song]" 1 "''Chill''" "[''Chill'']" demo_env
        "\<lparr>db = [sentinel 1 ''Chill''], files = {}, replies = []\<rparr>"]
    view_playlist_lists_titled_rows
    [of "[sentinel 1 ''Chill'']" 1 "''Chill''" "[''Chill'']" demo_env empty_world]
    view_playlist_lists_titled_rows
    [of "[sentinel 1 ''Chill'']" 1 "''Chill''" "[''Chill'']" demo_env
        "\<lparr>db = [sentinel 1 ''Chill'', chill_song, sentinel 2 ''Chill''], files = {}, replies = []\<rparr>"]
  by (simp add: demo_defs sql_select_songs_def in_playlist_def reply_text_def)

section \<open>Deleting a playlist\<close>

lemma sql_delete_length:
  "length t = length (sql_delete t uid name) + rows_removed t uid name"
  by (induction t) (auto simp: sql_delete_def rows_removed_def)

lemma sql_delete_nothing:
  "rows_removed t uid name = 0 \<Longrightarrow> sql_delete t uid name = t"
  by (induction t) (auto simp: sql_delete_def rows_removed_def split: if_splits)

text \<open>
  Claim C5, as amended. For every owner and playlist name, \<open>delete_playlist\<close>
  removes all rows of that owner and name and leaves every other row as it was,
  so the table shrinks by the number of matching rows; when no row matches, the
  table is unchanged and nothing is raised. It reports no count: it sends the
  same reply, that the playlist was deleted, however many rows it removed.
\<close>

theorem delete_playlist_removes_rows:
  "args \<noteq> [] \<and> \<not> connect_fault e \<and> \<not> execute_fault e \<and> \<not> commit_fault e \<longrightarrow>
     snd (delete_playlist e w uid args) = None
     \<and> (\<forall>r \<in> set (db (fst (delete_playlist e w uid args))).
           \<not> (user_id r = uid \<and> playlist_name r = py_join '' '' args))
     \<and> filter (\<lambda>r. \<not> (user_id r = uid \<and> playlist_name r = py_join '' '' args))
          (db (fst (delete_playlist e w uid args))) =
        filter (\<lambda>r. \<not> (user_id r = uid \<and> playlist_name r = py_join '' '' args)) (db w)
     \<and> length (db w) =
        length (db (fst (delete_playlist e w uid args)))
          + rows_removed (db w) uid (py_join '' '' args)
     \<and> (rows_removed (db w) uid (py_join '' '' args) = 0 \<longrightarrow>
          db (fst (delete_playlist e w uid args)) = db w)
     \<and> replies (fst (delete_playlist e w uid args)) =
        replies w @ [Text (''Playlist '' @ apostrophe @ py_join '' '' args @ apostrophe
                             @ '' deleted.'')]
     \<and> files (fst (delete_playlist e w uid args)) = files w"
  using sql_delete_length [of "db w" uid "py_join '' '' args"]
    sql_delete_nothing [of "db w" uid "py_join '' '' args"]
  by (auto simp: delete_playlist_def Let_def reply_text_def sql_delete_def in_playlist_def)

theorem delete_playlist_removes_rows_witness:
  "delete_playlist demo_env
     \<lparr>db = [sentinel 1 ''Chill'', sentinel 2 ''Chill'', chill_song], files = {}, replies = []\<rparr>
     1 [''Chill''] =
     (\<lparr>db = [sentinel 2 ''Chill''], files = {},
       replies = [Text (''Playlist '' @ apostrophe @ ''Chill'' @ apostrophe @ '' deleted.'')]\<rparr>,
      None)
   \<and> rows_removed [sentinel 1 ''Chill'', sentinel 2 ''Chill'', chill_song] 1 ''Chill'' = 2"
  using delete_playlist_removes_rows
    [of "[''Chill'']" demo_env
        "\<lparr>db = [sentinel 1 ''Chill'', sentinel 2 ''Chill'', chill_song], files = {}, replies = []\<rparr>" 1]
  by (simp add: demo_defs delete_playlist_def sql_delete_def rows_removed_def in_playlist_def
      reply_text_def)

text \<open>
  The claim as stated fails: the handler's outcome on a playlist of two rows is
  the outcome on a table with no such playlist, reply for reply, so it returns
  no count of the rows removed (two in one case, none in the other).
\<close>

theorem delete_playlist_count_counterexample:
  "delete_playlist demo_env
     \<lparr>db = [sentinel 1 ''Chill'', chill_song], files = {}, replies = []\<rparr> 1 [''Chill''] =
     (\<lparr>db = [], files = {},
       replies = [Text (''Playlist '' @ apostrophe @ ''Chill'' @ apostrophe @ '' deleted.'')]\<rparr>,
      None)
   \<and> delete_playlist demo_env \<lparr>db = [], files = {}, replies = []\<rparr> 1 [''Chill''] =
     (\<lparr>db = [], files = {},
       replies = [Text (''Playlist '' @ apostrophe @ ''Chill'' @ apostrophe @ '' deleted.'')]\<rparr>,
      None)
   \<and> rows_removed [sentinel 1 ''Chill'', chill_song] 1 ''Chill'' = 2
   \<and> rows_removed [] 1 ''Chill'' = 0"
  by (simp add: demo_defs delete_playlist_def sql_delete_def rows_removed_def in_playlist_def
      reply_text_def)

section \<open>Creating a playlist\<close>

lemma pk_count_zero:
  "k \<notin> pkey ` set t \<Longrightarrow> filter (\<lambda>r. pkey r = k) t = []"
  by (induction t) auto

lemma pk_count_one:
  "distinct (map pkey t) \<Longrightarrow> k \<in> pkey ` set t \<Longrightarrow> length (filter (\<lambda>r. pkey r = k) t) = 1"
  by (induction t) (auto simp: pk_count_zero)

lemma create_playlist_fresh:
  assumes "args \<noteq> []" "\<not> connect_fault e" "\<not> execute_fault e" "\<not> commit_fault e"
    and "pkey (sentinel uid (py_join '' '' args)) \<notin> pkey ` set (db w)"
  shows "create_playlist e w uid args =
           (w\<lparr>db := db w @ [sentinel uid (py_join '' '' args)],
              replies := replies w @ [Text (''Playlist '' @ apostrophe @ py_join '' '' args
                                             @ apostrophe @ '' created.'')]\<rparr>, None)"
  using assms by (simp add: create_playlist_def Let_def sql_insert_def reply_text_def)

lemma create_playlist_present:
  assumes "args \<noteq> []" "\<not> connect_fault e" "\<not> execute_fault e"
    and "pkey (sentinel uid (py_join '' '' args)) \<in> pkey ` set (db w)"
  shows "create_playlist e w uid args =
           (w\<lparr>replies := replies w @ [Text (''Playlist '' @ apostrophe @ py_join '' '' args
                                             @ apostrophe @ '' already exists.'')]\<rparr>, None)"
  using assms by (simp add: create_playlist_def Let_def sql_insert_def reply_text_def)

lemma create_playlist_key_after:
  assumes "args \<noteq> []" "\<not> connect_fault e" "\<not> execute_fault e" "\<not> commit_fault e"
  shows "pkey (sentinel uid (py_join '' '' args)) \<in> pkey ` set (db (fst (create_playlist e w uid args)))"
proof (cases "pkey (sentinel uid (py_join '' '' args)) \<in> pkey ` set (db w)")
  case True
  then show ?thesis using assms by (simp add: create_playlist_present)
next
  case False
  then show ?thesis using assms by (simp add: create_playlist_fresh)
qed

lemma create_playlist_keeps_pk:
  assumes "args \<noteq> []" "\<not> connect_fault e" "\<not> execute_fault e" "\<not> commit_fault e"
    and "pk_distinct (db w)"
  shows "pk_distinct (db (fst (create_playlist e w uid args)))"
proof (cases "pkey (sentinel uid (py_join '' '' args)) \<in> pkey ` set (db w)")
  case True
  then show ?thesis using assms by (simp add: create_playlist_present)
next
  case False
  then show ?thesis using assms by (simp add: create_playlist_fresh pk_distinct_def)
qed

text \<open>
  Claim C2, as amended. For every owner and playlist name, \<open>create_playlist\<close>
  inserts the sentinel row and succeeds when no row with the key
  (owner, name, empty url) exists, and replies that the playlist already exists,
  changing nothing, when such a row exists: only a row whose url is empty
  collides with the sentinel. A second identical call right after a first
  always gets the already-exists reply and leaves exactly one row with the
  sentinel's key, which is the sentinel itself when the first call created it.
\<close>

theorem create_playlist_sentinel_key:
  "args \<noteq> [] \<and> \<not> connect_fault e \<and> \<not> execute_fault e \<and> \<not> commit_fault e \<longrightarrow>
     (pkey (sentinel uid (py_join '' '' args)) \<notin> pkey ` set (db w) \<longrightarrow>
        create_playlist e w uid args =
          (w\<lparr>db := db w @ [sentinel uid (py_join '' '' args)],
             replies := replies w @ [Text (''Playlist '' @ apostrophe @ py_join '' '' args
                                            @ apostrophe @ '' created.'')]\<rparr>, None)
        \<and> filter (\<lambda>r. pkey r = (uid, py_join '' '' args, []))
             (db (fst (create_playlist e (fst (create_playlist e w uid args)) uid args))) =
           [sentinel uid (py_join '' '' args)])
     \<and> (pkey (sentinel uid (py_join '' '' args)) \<in> pkey ` set (db w) \<longrightarrow>
        create_playlist e w uid args =
          (w\<lparr>replies := replies w @ [Text (''Playlist '' @ apostrophe @ py_join '' '' args
                                            @ apostrophe @ '' already exists.'')]\<rparr>, None))
     \<and> create_playlist e (fst (create_playlist e w uid args)) uid args =
          ((fst (create_playlist e w uid args))
             \<lparr>replies := replies (fst (create_playlist e w uid args))
                @ [Text (''Playlist '' @ apostrophe @ py_join '' '' args
                          @ apostrophe @ '' already exists.'')]\<rparr>, None)
     \<and> (pk_distinct (db w) \<longrightarrow>
          length (filter (\<lambda>r. pkey r = (uid, py_join '' '' args, []))
                    (db (fst (create_playlist e (fst (create_playlist e w uid args)) uid args)))) = 1)"
proof (intro impI)
  assume h: "args \<noteq> [] \<and> \<not> connect_fault e \<and> \<not> execute_fault e \<and> \<not> commit_fault e"
  let ?n = "py_join '' '' args"
  let ?w1 = "fst (create_playlist e w uid args)"
  have key: "pkey (sentinel uid ?n) = (uid, ?n, [])"
    by (simp add: sentinel_def pkey_def)
  have second: "create_playlist e ?w1 uid args =
      (?w1\<lparr>replies := replies ?w1 @ [Text (''Playlist '' @ apostrophe @ ?n
                                            @ apostrophe @ '' already exists.'')]\<rparr>, None)"
    using h create_playlist_key_after [of args e uid w] by (simp add: create_playlist_present)
  have fresh: "filter (\<lambda>r. pkey r = (uid, ?n, [])) (db (fst (create_playlist e ?w1 uid args))) =
      [sentinel uid ?n]"
    if "pkey (sentinel uid ?n) \<notin> pkey ` set (db w)"
    using that h second pk_count_zero [of "(uid, ?n, [])" "db w"]
    by (simp add: create_playlist_fresh key)
  have one: "length (filter (\<lambda>r. pkey r = (uid, ?n, [])) (db (fst (create_playlist e ?w1 uid args)))) = 1"
    if "pk_distinct (db w)"
  proof -
    have "pk_distinct (db ?w1)"
      using that h by (simp add: create_playlist_keeps_pk)
    moreover have "(uid, ?n, []) \<in> pkey ` set (db ?w1)"
      using h create_playlist_key_after [of args e uid w] by (simp add: key)
    ultimately show ?thesis
      using second by (simp add: pk_count_one pk_distinct_def)
  qed
  show "(pkey (sentinel uid ?n) \<notin> pkey ` set (db w) \<longrightarrow>
        create_playlist e w uid args =
          (w\<lparr>db := db w @ [sentinel uid ?n],
             replies := replies w @ [Text (''Playlist '' @ apostrophe @ ?n
                                            @ apostrophe @ '' created.'')]\<rparr>, None)
        \<and> filter (\<lambda>r. pkey r = (uid, ?n, []))
             (db (fst (create_playlist e ?w1 uid args))) = [sentinel uid ?n])
     \<and> (pkey (sentinel uid ?n) \<in> pkey ` set (db w) \<longrightarrow>
        create_playlist e w uid args =
          (w\<lparr>replies := replies w @ [Text (''Playlist '' @ apostrophe @ ?n
                                            @ apostrophe @ '' already exists.'')]\<rparr>, None))
     \<and> create_playlist e ?w1 uid args =
          (?w1\<lparr>replies := replies ?w1
                @ [Text (''Playlist '' @ apostrophe @ ?n @ apostrophe @ '' already exists.'')]\<rparr>, None)
     \<and> (pk_distinct (db w) \<longrightarrow>
          length (filter (\<lambda>r. pkey r = (uid, ?n, []))
                    (db (fst (create_playlist e ?w1 uid args)))) = 1)"
    using h second fresh one
    by (auto simp: create_playlist_fresh create_playlist_present)
qed

theorem create_playlist_sentinel_key_witness:
  "create_playlist demo_env empty_world 1 [''Road'', ''Trip''] =
     (\<lparr>db = [sentinel 1 ''Road Trip''], files = {},
       replies = [Text (''Playlist '' @ apostrophe @ ''Road Trip'' @ apostrophe @ '' created.'')]\<rparr>,
      None)
   \<and> create_playlist demo_env
       (fst (create_playlist demo_env empty_world 1 [''Road'', ''Trip''])) 1 [''Road'', ''Trip''] =
     (\<lparr>db = [sentinel 1 ''Road Trip''], files = {},
       replies = [Text (''Playlist '' @ apostrophe @ ''Road Trip'' @ apostrophe @ '' created.''),
                  Text (''Playlist '' @ apostrophe @ ''Road Trip'' @ apostrophe
                          @ '' already exists.'')]\<rparr>,
      None)
   \<and> pk_distinct (db empty_world)"
  using create_playlist_sentinel_key [of "[''Road'', ''Trip'']" demo_env 1 empty_world]
  by (simp add: demo_defs pkey_def pk_distinct_def create_playlist_def sql_insert_def
      reply_text_def Let_def)

text \<open>
  The claim as stated fails: owner 1 has a song in the playlist Chill, added
  without a prior create, and \<open>create_playlist\<close> still succeeds and adds the
  sentinel row beside it.
\<close>

theorem create_playlist_after_add_counterexample:
  "create_playlist demo_env \<lparr>db = [chill_song], files = {}, replies = []\<rparr> 1 [''Chill''] =
     (\<lparr>db = [chill_song, sentinel 1 ''Chill''], files = {},
       replies = [Text (''Playlist '' @ apostrophe @ ''Chill'' @ apostrophe @ '' created.'')]\<rparr>,
      None)
   \<and> user_id chill_song = 1 \<and> playlist_name chill_song = ''Chill''"
  by (simp add: demo_defs create_playlist_def sql_insert_def pkey_def reply_text_def Let_def)

section \<open>Adding a song\<close>

lemmas add_eval_defs =
  add_to_playlist_def download_audio_def download_opts_def py_replace_def add_song_url_def
  add_song_title_def startswith_def last_segment_def str_int_def digit_char_def sql_insert_def
  reply_text_def pkey_def Let_def

text \<open>
  Claim C1. A first add stores the row and lists it once; the same command a
  second time makes the INSERT violate the primary key. Unlike
  \<open>create_playlist\<close>, \<open>add_to_playlist\<close> has no handler for the integrity error:
  it leaves the handler as an exception, no reply is sent, and the downloaded
  file stays on disk. The stored row is untouched.
\<close>

theorem add_to_playlist_duplicate_raises:
  "add_to_playlist demo_env empty_world 1 [''Chill'', ''https://example/track1''] =
     (\<lparr>db = [chill_song], files = {},
       replies = [Text (''Added '' @ apostrophe @ ''Song'' @ apostrophe @ '' to ''
                          @ apostrophe @ ''Chill'' @ apostrophe @ ''.'')]\<rparr>, None)
   \<and> add_to_playlist demo_env
       \<lparr>db = [chill_song], files = {},
        replies = [Text (''Added '' @ apostrophe @ ''Song'' @ apostrophe @ '' to ''
                          @ apostrophe @ ''Chill'' @ apostrophe @ ''.'')]\<rparr>
       1 [''Chill'', ''https://example/track1''] =
     (\<lparr>db = [chill_song], files = {''/tmp/1_Song.mp3''},
       replies = [Text (''Added '' @ apostrophe @ ''Song'' @ apostrophe @ '' to ''
                          @ apostrophe @ ''Chill'' @ apostrophe @ ''.'')]\<rparr>,
      Some IntegrityError)
   \<and> sql_select_songs [chill_song] 1 ''Chill'' = [(''Song'', ''https://example/track1'')]"
  by (simp add: demo_defs add_eval_defs sql_select_songs_def in_playlist_def)

lemma download_audio_keeps:
  "download_audio e w q uid = (w1, f, t) \<Longrightarrow>
     db w1 = db w \<and> replies w1 = replies w \<and> files w \<subseteq> files w1"
  by (auto simp: download_audio_def split: fetch_outcome.splits)

text \<open>
  Claim C4, as amended. Whenever the add command's resolver call succeeds with
  a file that exists on disk and the store write then succeeds, the temp file
  is deleted, the row is stored and the user is told so.
\<close>

theorem add_to_playlist_cleans_up_when_stored:
  "\<not> length args < 2
   \<and> download_audio e w (py_join '' '' (tl args)) uid = (w1, Some fn, t)
   \<and> fn \<noteq> [] \<and> fn \<in> files w1
   \<and> \<not> connect_fault e \<and> \<not> execute_fault e \<and> \<not> commit_fault e
   \<and> pkey \<lparr>user_id = uid, playlist_name = hd args, song_title = add_song_title uid fn,
            song_url = add_song_url (py_join '' '' (tl args))\<rparr> \<notin> pkey ` set (db w)
   \<longrightarrow>
     snd (add_to_playlist e w uid args) = None
     \<and> fn \<notin> files (fst (add_to_playlist e w uid args))
     \<and> files (fst (add_to_playlist e w uid args)) = files w1 - {fn}
     \<and> db (fst (add_to_playlist e w uid args)) =
         db w @ [\<lparr>user_id = uid, playlist_name = hd args, song_title = add_song_title uid fn,
                   song_url = add_song_url (py_join '' '' (tl args))\<rparr>]
     \<and> replies (fst (add_to_playlist e w uid args)) =
         replies w @ [Text (''Added '' @ apostrophe @ add_song_title uid fn @ apostrophe @ '' to ''
                             @ apostrophe @ hd args @ apostrophe @ ''.'')]"
proof (intro impI)
  assume h: "\<not> length args < 2
   \<and> download_audio e w (py_join '' '' (tl args)) uid = (w1, Some fn, t)
   \<and> fn \<noteq> [] \<and> fn \<in> files w1
   \<and> \<not> connect_fault e \<and> \<not> execute_fault e \<and> \<not> commit_fault e
   \<and> pkey \<lparr>user_id = uid, playlist_name = hd args, song_title = add_song_title uid fn,
            song_url = add_song_url (py_join '' '' (tl args))\<rparr> \<notin> pkey ` set (db w)"
  then have keep: "db w1 = db w" "replies w1 = replies w"
    using download_audio_keeps [of e w "py_join '' '' (tl args)" uid w1 "Some fn" t] by simp_all
  show "snd (add_to_playlist e w uid args) = None
     \<and> fn \<notin> files (fst (add_to_playlist e w uid args))
     \<and> files (fst (add_to_playlist e w uid args)) = files w1 - {fn}
     \<and> db (fst (add_to_playlist e w uid args)) =
         db w @ [\<lparr>user_id = uid, playlist_name = hd args, song_title = add_song_title uid fn,
                   song_url = add_song_url (py_join '' '' (tl args))\<rparr>]
     \<and> replies (fst (add_to_playlist e w uid args)) =
         replies w @ [Text (''Added '' @ apostrophe @ add_song_title uid fn @ apostrophe @ '' to ''
                             @ apostrophe @ hd args @ apostrophe @ ''.'')]"
    using h keep by (simp add: add_to_playlist_def Let_def sql_insert_def reply_text_def)
qed

theorem add_to_playlist_cleans_up_when_stored_witness:
  "download_audio demo_env empty_world ''https://example/track1'' 1 =
     (\<lparr>db = [], files = {''/tmp/1_Song.mp3''}, replies = []\<rparr>, Some ''/tmp/1_Song.mp3'', ''Song'')
   \<and> ''/tmp/1_Song.mp3'' \<notin>
       files (fst (add_to_playlist demo_env empty_world 1 [''Chill'', ''https://example/track1'']))
   \<and> db (fst (add_to_playlist demo_env empty_world 1 [''Chill'', ''https://example/track1''])) =
       [chill_song]"
  using add_to_playlist_cleans_up_when_stored
    [of "[''Chill'', ''https://example/track1'']" demo_env empty_world 1
        "\<lparr>db = [], files = {''/tmp/1_Song.mp3''}, replies = []\<rparr>" "''/tmp/1_Song.mp3''" "''Song''"]
  by (simp add: demo_defs download_audio_def download_opts_def py_replace_def add_song_url_def
      add_song_title_def startswith_def last_segment_def str_int_def digit_char_def pkey_def)

text \<open>
  The claim as stated fails: when the commit faults, the exception leaves the
  handler before \<^verbatim>\<open>os.remove\<close> is reached and the temp file remains.
\<close>

theorem add_to_playlist_store_fault_counterexample:
  "add_to_playlist (demo_env\<lparr>commit_fault := True\<rparr>) empty_world 1
     [''Chill'', ''https://example/track1''] =
     (\<lparr>db = [], files = {''/tmp/1_Song.mp3''}, replies = []\<rparr>, Some OperationalError)"
  by (simp add: demo_defs add_eval_defs)

section \<open>The bare-text branch\<close>

lemma handle_message_file_found:
  assumes "strip raw \<noteq> []"
    and "download_audio e (reply_text w ''Downloading... Please wait.'') (strip raw) uid =
           (w2, Some fn, title)"
    and "fn \<noteq> []" "fn \<in> files w2"
  shows "handle_message e w uid raw = (w2, Some TypeError)"
  using assms by (simp add: handle_message_def telegram_Audio_def Let_def)

text \<open>
  Claim C8. Owner 1 sends the bare text "lofi hip hop"; the resolver succeeds
  and its MP3 is on disk. The handler then raises \<^verbatim>\<open>TypeError\<close> while it builds
  the audio message: no audio is delivered, the removal that follows the
  with-block is not reached, and the temp file is still on disk when the
  handler is left.
\<close>

theorem handle_message_raises_before_cleanup:
  "handle_message demo_env empty_world 1 ''lofi hip hop'' =
     (\<lparr>db = [], files = {''/tmp/1_Song.mp3''},
       replies = [Text ''Downloading... Please wait.'']\<rparr>, Some TypeError)"
  by (simp add: demo_defs handle_message_def telegram_Audio_def download_audio_def
      download_opts_def py_replace_def startswith_def str_int_def digit_char_def reply_text_def
      strip_defs Let_def)

section \<open>Every branch and its replies\<close>

lemma download_audio_frame:
  "\<exists>F f t. \<forall>w. download_audio e w q uid = (w\<lparr>files := files w \<union> F\<rparr>, f, t)"
  by (cases "ydl e (download_opts q uid) q") (auto simp: download_audio_def)

lemma create_playlist_replies:
  "snd (create_playlist e w uid args) = None \<Longrightarrow>
   length (replies w) < length (replies (fst (create_playlist e w uid args)))"
  by (auto simp: create_playlist_def Let_def reply_text_def
      split: if_splits sum.splits error.splits)

lemma view_playlist_replies:
  "snd (view_playlist e w uid args) = None \<Longrightarrow>
   length (replies w) < length (replies (fst (view_playlist e w uid args)))"
  by (auto simp: view_playlist_def Let_def reply_text_def split: if_splits)

lemma delete_playlist_replies:
  "snd (delete_playlist e w uid args) = None \<Longrightarrow>
   length (replies w) < length (replies (fst (delete_playlist e w uid args)))"
  by (auto simp: delete_playlist_def Let_def reply_text_def split: if_splits)

lemma add_to_playlist_replies:
  "snd (add_to_playlist e w uid args) = None \<Longrightarrow>
   length (replies w) < length (replies (fst (add_to_playlist e w uid args)))"
proof -
  obtain F f t where d: "\<And>w. download_audio e w (py_join '' '' (tl args)) uid =
      (w\<lparr>files := files w \<union> F\<rparr>, f, t)"
    using download_audio_frame by blast
  assume "snd (add_to_playlist e w uid args) = None"
  then show ?thesis
    by (auto simp: add_to_playlist_def d Let_def reply_text_def
        split: if_splits option.splits sum.splits)
qed

lemma handle_message_replies:
  "length (replies w) < length (replies (fst (handle_message e w uid raw)))"
proof -
  obtain F f t where d: "\<And>w. download_audio e w (strip raw) uid =
      (w\<lparr>files := files w \<union> F\<rparr>, f, t)"
    using download_audio_frame by blast
  show ?thesis
    by (auto simp: handle_message_def telegram_Audio_def d Let_def reply_text_def
        split: option.splits)
qed

lemma store_handlers_return:
  assumes "\<not> connect_fault e" "\<not> execute_fault e" "\<not> commit_fault e"
  shows "snd (create_playlist e w uid args) = None"
    and "snd (view_playlist e w uid args) = None"
    and "snd (delete_playlist e w uid args) = None"
  using assms
  by (auto simp: create_playlist_def view_playlist_def delete_playlist_def sql_insert_def Let_def)

lemma store_handlers_raise:
  assumes "args \<noteq> []"
  shows "connect_fault e \<or> execute_fault e \<Longrightarrow>
           create_playlist e w uid args = (w, Some OperationalError)"
    and "connect_fault e \<or> execute_fault e \<Longrightarrow>
           view_playlist e w uid args = (w, Some OperationalError)"
    and "connect_fault e \<or> execute_fault e \<or> commit_fault e \<Longrightarrow>
           delete_playlist e w uid args = (w, Some OperationalError)"
    and "commit_fault e \<Longrightarrow> pkey (sentinel uid (py_join '' '' args)) \<notin> pkey ` set (db w) \<Longrightarrow>
           create_playlist e w uid args = (w, Some OperationalError)"
  using assms
  by (auto simp: create_playlist_def view_playlist_def delete_playlist_def sql_insert_def Let_def)

lemma add_to_playlist_storage_fault:
  assumes "\<not> length args < 2"
    and d: "download_audio e w (py_join '' '' (tl args)) uid = (w1, Some fn, t)"
    and "fn \<noteq> []"
    and "connect_fault e \<or> execute_fault e
         \<or> (commit_fault e
            \<and> pkey \<lparr>user_id = uid, playlist_name = hd args, song_title = add_song_title uid fn,
                     song_url = add_song_url (py_join '' '' (tl args))\<rparr> \<notin> pkey ` set (db w))"
  shows "add_to_playlist e w uid args = (w1, Some OperationalError) \<and> replies w1 = replies w"
proof -
  have keep: "db w1 = db w" "replies w1 = replies w"
    using download_audio_keeps [OF d] by simp_all
  show ?thesis
    using assms keep by (auto simp: add_to_playlist_def sql_insert_def Let_def)
qed

text \<open>
  Claim C3, as amended. For every inbound message or command and every outcome
  of the resolver, a handler that returns without raising has sent at least one
  reply, and the start handler and the bare-text branch send at least one reply
  in every case. With no storage fault, the start, create, view and delete
  handlers always return without raising (create also on a duplicate key). A
  storage fault that a handler meets leaves it as an exception with no reply
  and the world as it was: at connect or execute in create, view and delete,
  at commit in delete and in create of a fresh key, and in add, after a
  successful resolve, at connect, at execute or at the commit of a fresh key.
\<close>

theorem handlers_reply_unless_they_raise:
  "(snd (handle_update e w uid u) = None \<longrightarrow>
      length (replies w) < length (replies (fst (handle_update e w uid u))))
   \<and> (u = Start \<or> u = Message raw \<longrightarrow>
      length (replies w) < length (replies (fst (handle_update e w uid u))))
   \<and> (\<not> connect_fault e \<and> \<not> execute_fault e \<and> \<not> commit_fault e
       \<and> u \<in> {Start, CreatePlaylist args, ViewPlaylist args, DeletePlaylist args}
       \<longrightarrow> snd (handle_update e w uid u) = None)
   \<and> (args \<noteq> [] \<and> (connect_fault e \<or> execute_fault e)
       \<and> u \<in> {CreatePlaylist args, ViewPlaylist args, DeletePlaylist args}
       \<longrightarrow> handle_update e w uid u = (w, Some OperationalError))
   \<and> (args \<noteq> [] \<and> commit_fault e
       \<and> (u = DeletePlaylist args
          \<or> u = CreatePlaylist args
            \<and> pkey (sentinel uid (py_join '' '' args)) \<notin> pkey ` set (db w))
       \<longrightarrow> handle_update e w uid u = (w, Some OperationalError))
   \<and> (u = AddToPlaylist args \<and> \<not> length args < 2
       \<and> download_audio e w (py_join '' '' (tl args)) uid = (w1, Some fn, t) \<and> fn \<noteq> []
       \<and> (connect_fault e \<or> execute_fault e
          \<or> commit_fault e
            \<and> pkey \<lparr>user_id = uid, playlist_name = hd args,
                     song_title = add_song_title uid fn,
                     song_url = add_song_url (py_join '' '' (tl args))\<rparr> \<notin> pkey ` set (db w))
       \<longrightarrow> handle_update e w uid u = (w1, Some OperationalError) \<and> replies w1 = replies w)"
proof -
  have "snd (handle_update e w uid u) = None \<longrightarrow>
      length (replies w) < length (replies (fst (handle_update e w uid u)))"
    by (cases u)
      (simp_all add: start_def reply_text_def create_playlist_replies add_to_playlist_replies
        view_playlist_replies delete_playlist_replies handle_message_replies)
  moreover have "u = Start \<or> u = Message raw \<longrightarrow>
      length (replies w) < length (replies (fst (handle_update e w uid u)))"
    by (auto simp: start_def reply_text_def handle_message_replies)
  moreover have "\<not> connect_fault e \<and> \<not> execute_fault e \<and> \<not> commit_fault e
       \<and> u \<in> {Start, CreatePlaylist args, ViewPlaylist args, DeletePlaylist args}
       \<longrightarrow> snd (handle_update e w uid u) = None"
    by (auto simp: start_def store_handlers_return)
  moreover have "args \<noteq> [] \<and> (connect_fault e \<or> execute_fault e)
       \<and> u \<in> {CreatePlaylist args, ViewPlaylist args, DeletePlaylist args}
       \<longrightarrow> handle_update e w uid u = (w, Some OperationalError)"
    by (auto simp: store_handlers_raise)
  moreover have "args \<noteq> [] \<and> commit_fault e
       \<and> (u = DeletePlaylist args
          \<or> u = CreatePlaylist args
            \<and> pkey (sentinel uid (py_join '' '' args)) \<notin> pkey ` set (db w))
       \<longrightarrow> handle_update e w uid u = (w, Some OperationalError)"
    by (auto simp: store_handlers_raise)
  moreover have "u = AddToPlaylist args \<and> \<not> length args < 2
       \<and> download_audio e w (py_join '' '' (tl args)) uid = (w1, Some fn, t) \<and> fn \<noteq> []
       \<and> (connect_fault e \<or> execute_fault e
          \<or> commit_fault e
            \<and> pkey \<lparr>user_id = uid, playlist_name = hd args,
                     song_title = add_song_title uid fn,
                     song_url = add_song_url (py_join '' '' (tl args))\<rparr> \<notin> pkey ` set (db w))
       \<longrightarrow> handle_update e w uid u = (w1, Some OperationalError) \<and> replies w1 = replies w"
    using add_to_playlist_storage_fault [of args e w uid w1 fn t] by auto
  ultimately show ?thesis by blast
qed

theorem handlers_reply_unless_they_raise_witness:
  "handle_update demo_env \<lparr>db = [sentinel 1 ''Chill''], files = {}, replies = []\<rparr> 1
     (CreatePlaylist [''Chill'']) =
     (\<lparr>db = [sentinel 1 ''Chill''], files = {},
       replies = [Text (''Playlist '' @ apostrophe @ ''Chill'' @ apostrophe
                          @ '' already exists.'')]\<rparr>, None)
   \<and> length (replies \<lparr>db = [sentinel 1 ''Chill''], files = {}, replies = []\<rparr>) <
       length (replies (fst (handle_update demo_env
          \<lparr>db = [sentinel 1 ''Chill''], files = {}, replies = []\<rparr> 1 (CreatePlaylist [''Chill'']))))
   \<and> length (replies empty_world) <
       length (replies (fst (handle_update demo_env empty_world 1 (Message ''lofi hip hop''))))
   \<and> handle_update (demo_env\<lparr>execute_fault := True\<rparr>) empty_world 1 (CreatePlaylist [''Chill'']) =
       (\<lparr>db = [], files = {}, replies = []\<rparr>, Some OperationalError)
   \<and> handle_update (demo_env\<lparr>commit_fault := True\<rparr>)
       \<lparr>db = [chill_song], files = {}, replies = []\<rparr> 1 (DeletePlaylist [''Chill'']) =
       (\<lparr>db = [chill_song], files = {}, replies = []\<rparr>, Some OperationalError)
   \<and> handle_update (demo_env\<lparr>connect_fault := True\<rparr>) empty_world 1
       (AddToPlaylist [''Chill'', ''https://example/track1'']) =
       (\<lparr>db = [], files = {''/tmp/1_Song.mp3''}, replies = []\<rparr>, Some OperationalError)"
  using handlers_reply_unless_they_raise
    [of demo_env "\<lparr>db = [sentinel 1 ''Chill''], files = {}, replies = []\<rparr>" 1
        "CreatePlaylist [''Chill'']" "[]" "[''Chill'']"]
    handlers_reply_unless_they_raise
    [of demo_env empty_world 1 "Message ''lofi hip hop''" "''lofi hip hop''" "[]"]
    handlers_reply_unless_they_raise
    [of "demo_env\<lparr>execute_fault := True\<rparr>" empty_world 1 "CreatePlaylist [''Chill'']" "[]"
        "[''Chill'']"]
    handlers_reply_unless_they_raise
    [of "demo_env\<lparr>commit_fault := True\<rparr>" "\<lparr>db = [chill_song], files = {}, replies = []\<rparr>" 1
        "DeletePlaylist [''Chill'']" "[]" "[''Chill'']"]
    handlers_reply_unless_they_raise
    [of "demo_env\<lparr>connect_fault := True\<rparr>" empty_world 1
        "AddToPlaylist [''Chill'', ''https://example/track1'']" "[]"
        "[''Chill'', ''https://example/track1'']"
        "\<lparr>db = [], files = {''/tmp/1_Song.mp3''}, replies = []\<rparr>" "''/tmp/1_Song.mp3''" "''Song''"]
  by (simp add: demo_defs create_playlist_def sql_insert_def pkey_def reply_text_def Let_def
      download_audio_def download_opts_def py_replace_def startswith_def str_int_def
      digit_char_def)

text \<open>
  The claim as stated fails: when the storage layer faults at connect, the view
  handler is left by the exception and the user gets no reply.
\<close>

theorem storage_fault_no_reply_counterexample:
  "handle_update (demo_env\<lparr>connect_fault := True\<rparr>) empty_world 1 (ViewPlaylist [''Chill'']) =
     (\<lparr>db = [], files = {}, replies = []\<rparr>, Some OperationalError)"
  by (simp add: demo_defs view_playlist_def Let_def)

section \<open>Owner isolation\<close>

lemma filter_other_owner_delete:
  "a \<noteq> b \<Longrightarrow>
   filter (\<lambda>r. user_id r = b) (sql_delete t a name) = filter (\<lambda>r. user_id r = b) t"
  by (induction t) (auto simp: sql_delete_def in_playlist_def)

lemma other_owner_rows_kept:
  assumes "a \<noteq> b"
  shows "filter (\<lambda>r. user_id r = b) (db (fst (handle_update e w a u))) =
         filter (\<lambda>r. user_id r = b) (db w)"
proof (cases u)
  case Start
  then show ?thesis by (simp add: start_def reply_text_def)
next
  case (CreatePlaylist args)
  then show ?thesis using assms
    by (auto simp: create_playlist_def sql_insert_def sentinel_def Let_def reply_text_def)
next
  case (AddToPlaylist args)
  obtain F f t where d: "\<And>w. download_audio e w (py_join '' '' (tl args)) a =
      (w\<lparr>files := files w \<union> F\<rparr>, f, t)"
    using download_audio_frame by blast
  show ?thesis using assms AddToPlaylist
    by (auto simp: add_to_playlist_def d sql_insert_def Let_def reply_text_def
        split: option.splits)
next
  case (ViewPlaylist args)
  then show ?thesis by (simp add: view_playlist_def Let_def reply_text_def)
next
  case (DeletePlaylist args)
  then show ?thesis using assms
    by (simp add: delete_playlist_def Let_def reply_text_def filter_other_owner_delete)
next
  case (Message raw)
  obtain F f t where d: "\<And>w. download_audio e w (strip raw) a =
      (w\<lparr>files := files w \<union> F\<rparr>, f, t)"
    using download_audio_frame by blast
  show ?thesis using Message
    by (auto simp: handle_message_def telegram_Audio_def d Let_def reply_text_def
        split: option.splits)
qed

lemma own_key_member:
  "user_id r = a \<Longrightarrow>
   (pkey r \<in> pkey ` set t) = (pkey r \<in> pkey ` set (filter (\<lambda>x. user_id x = a) t))"
  by (fastforce simp: pkey_def image_iff)

lemma own_select:
  "sql_select_songs t a name = sql_select_songs (filter (\<lambda>x. user_id x = a) t) a name"
  by (induction t) (auto simp: sql_select_songs_def in_playlist_def)

lemma own_delete:
  "filter (\<lambda>x. user_id x = a) (sql_delete t a name) =
   sql_delete (filter (\<lambda>x. user_id x = a) t) a name"
  by (induction t) (auto simp: sql_delete_def in_playlist_def)

lemma own_insert:
  assumes "user_id r = a"
    and "filter (\<lambda>x. user_id x = a) t' = filter (\<lambda>x. user_id x = a) t"
  shows "(pkey r \<in> pkey ` set t') = (pkey r \<in> pkey ` set t)"
  using assms own_key_member [of r a t] own_key_member [of r a t'] by simp

lemma handlers_scoped_by_owner:
  assumes own: "filter (\<lambda>x. user_id x = a) (db w') = filter (\<lambda>x. user_id x = a) (db w)"
    and fs: "files w' = files w" and rs: "replies w' = replies w"
  shows "snd (handle_update e w' a u) = snd (handle_update e w a u)
       \<and> replies (fst (handle_update e w' a u)) = replies (fst (handle_update e w a u))
       \<and> files (fst (handle_update e w' a u)) = files (fst (handle_update e w a u))
       \<and> filter (\<lambda>x. user_id x = a) (db (fst (handle_update e w' a u))) =
          filter (\<lambda>x. user_id x = a) (db (fst (handle_update e w a u)))"
proof (cases u)
  case Start
  then show ?thesis using own fs rs by (simp add: start_def reply_text_def)
next
  case (CreatePlaylist args)
  have "(pkey (sentinel a (py_join '' '' args)) \<in> pkey ` set (db w')) =
        (pkey (sentinel a (py_join '' '' args)) \<in> pkey ` set (db w))"
    using own by (intro own_insert [of _ a]) (simp_all add: sentinel_def)
  then show ?thesis using CreatePlaylist own fs rs
    by (auto simp: create_playlist_def sql_insert_def Let_def reply_text_def sentinel_def)
next
  case (AddToPlaylist args)
  obtain F f t where d: "\<And>w. download_audio e w (py_join '' '' (tl args)) a =
      (w\<lparr>files := files w \<union> F\<rparr>, f, t)"
    using download_audio_frame by blast
  have k: "(pkey \<lparr>user_id = a, playlist_name = n, song_title = ti, song_url = ur\<rparr> \<in> pkey ` set (db w')) =
        (pkey \<lparr>user_id = a, playlist_name = n, song_title = ti, song_url = ur\<rparr> \<in> pkey ` set (db w))"
    for n ti ur
    using own by (intro own_insert [of _ a]) simp_all
  show ?thesis using AddToPlaylist own fs rs
    by (auto simp: add_to_playlist_def d k sql_insert_def Let_def reply_text_def
        split: option.splits)
next
  case (ViewPlaylist args)
  have "sql_select_songs (db w') a n = sql_select_songs (db w) a n" for n
    using own own_select [of "db w'" a n] own_select [of "db w" a n] by simp
  then show ?thesis using ViewPlaylist own fs rs
    by (simp add: view_playlist_def Let_def reply_text_def)
next
  case (DeletePlaylist args)
  then show ?thesis using own fs rs
    by (simp add: delete_playlist_def Let_def reply_text_def own_delete)
next
  case (Message raw)
  obtain F f t where d: "\<And>w. download_audio e w (strip raw) a =
      (w\<lparr>files := files w \<union> F\<rparr>, f, t)"
    using download_audio_frame by blast
  show ?thesis using Message own fs rs
    by (auto simp: handle_message_def telegram_Audio_def d Let_def reply_text_def
        split: option.splits)
qed

text \<open>
  Claim C7. For every pair of distinct owners and every message or command of
  one of them, the rows of the other owner are exactly as before, and the
  outcome (exception, replies, files, and the owner's own rows) depends on the
  table only through the rows of the owner who sent it. In particular both
  owners can create a playlist of the same name, and both are told it was
  created.
\<close>

theorem owners_are_isolated:
  "a \<noteq> b \<longrightarrow>
     filter (\<lambda>r. user_id r = b) (db (fst (handle_update e w a u))) =
       filter (\<lambda>r. user_id r = b) (db w)
     \<and> (filter (\<lambda>r. user_id r = a) (db w') = filter (\<lambda>r. user_id r = a) (db w)
         \<and> files w' = files w \<and> replies w' = replies w \<longrightarrow>
          snd (handle_update e w' a u) = snd (handle_update e w a u)
          \<and> replies (fst (handle_update e w' a u)) = replies (fst (handle_update e w a u))
          \<and> files (fst (handle_update e w' a u)) = files (fst (handle_update e w a u))
          \<and> filter (\<lambda>r. user_id r = a) (db (fst (handle_update e w' a u))) =
             filter (\<lambda>r. user_id r = a) (db (fst (handle_update e w a u))))
     \<and> (args \<noteq> [] \<and> \<not> connect_fault e \<and> \<not> execute_fault e \<and> \<not> commit_fault e
         \<and> pkey (sentinel a (py_join '' '' args)) \<notin> pkey ` set (db w)
         \<and> pkey (sentinel b (py_join '' '' args)) \<notin> pkey ` set (db w) \<longrightarrow>
          create_playlist e (fst (create_playlist e w a args)) b args =
            (w\<lparr>db := db w @ [sentinel a (py_join '' '' args), sentinel b (py_join '' '' args)],
               replies := replies w
                 @ [Text (''Playlist '' @ apostrophe @ py_join '' '' args @ apostrophe @ '' created.''),
                    Text (''Playlist '' @ apostrophe @ py_join '' '' args @ apostrophe @ '' created.'')]\<rparr>,
             None))"
proof (intro impI conjI)
  assume ab: "a \<noteq> b"
  show "filter (\<lambda>r. user_id r = b) (db (fst (handle_update e w a u))) =
       filter (\<lambda>r. user_id r = b) (db w)"
    using ab by (rule other_owner_rows_kept)
next
  assume "filter (\<lambda>r. user_id r = a) (db w') = filter (\<lambda>r. user_id r = a) (db w)
         \<and> files w' = files w \<and> replies w' = replies w"
  then have s: "snd (handle_update e w' a u) = snd (handle_update e w a u)
       \<and> replies (fst (handle_update e w' a u)) = replies (fst (handle_update e w a u))
       \<and> files (fst (handle_update e w' a u)) = files (fst (handle_update e w a u))
       \<and> filter (\<lambda>x. user_id x = a) (db (fst (handle_update e w' a u))) =
          filter (\<lambda>x. user_id x = a) (db (fst (handle_update e w a u)))"
    by (intro handlers_scoped_by_owner) simp_all
  from s show "snd (handle_update e w' a u) = snd (handle_update e w a u)" by simp
  from s show "replies (fst (handle_update e w' a u)) = replies (fst (handle_update e w a u))" by simp
  from s show "files (fst (handle_update e w' a u)) = files (fst (handle_update e w a u))" by simp
  from s show "filter (\<lambda>r. user_id r = a) (db (fst (handle_update e w' a u))) =
             filter (\<lambda>r. user_id r = a) (db (fst (handle_update e w a u)))" by simp
next
  assume ab: "a \<noteq> b"
    and h: "args \<noteq> [] \<and> \<not> connect_fault e \<and> \<not> execute_fault e \<and> \<not> commit_fault e
         \<and> pkey (sentinel a (py_join '' '' args)) \<notin> pkey ` set (db w)
         \<and> pkey (sentinel b (py_join '' '' args)) \<notin> pkey ` set (db w)"
  have "pkey (sentinel b (py_join '' '' args)) \<noteq> pkey (sentinel a (py_join '' '' args))"
    using ab by (simp add: pkey_def sentinel_def)
  then show "create_playlist e (fst (create_playlist e w a args)) b args =
            (w\<lparr>db := db w @ [sentinel a (py_join '' '' args), sentinel b (py_join '' '' args)],
               replies := replies w
                 @ [Text (''Playlist '' @ apostrophe @ py_join '' '' args @ apostrophe @ '' created.''),
                    Text (''Playlist '' @ apostrophe @ py_join '' '' args @ apostrophe @ '' created.'')]\<rparr>,
             None)"
    using h by (simp add: create_playlist_fresh)
qed

theorem owners_are_isolated_witness:
  "create_playlist demo_env (fst (create_playlist demo_env empty_world 1 [''X''])) 2 [''X''] =
     (\<lparr>db = [sentinel 1 ''X'', sentinel 2 ''X''], files = {},
       replies = [Text (''Playlist '' @ apostrophe @ ''X'' @ apostrophe @ '' created.''),
                  Text (''Playlist '' @ apostrophe @ ''X'' @ apostrophe @ '' created.'')]\<rparr>, None)
   \<and> filter (\<lambda>r. user_id r = 2)
       (db (fst (handle_update demo_env
          \<lparr>db = [sentinel 2 ''Chill'', chill_song], files = {}, replies = []\<rparr> 1
          (DeletePlaylist [''Chill''])))) = [sentinel 2 ''Chill'']
   \<and> replies (fst (handle_update demo_env
          \<lparr>db = [sentinel 2 ''Chill'', chill_song], files = {}, replies = []\<rparr> 1
          (ViewPlaylist [''Chill'']))) =
     replies (fst (handle_update demo_env
          \<lparr>db = [chill_song], files = {}, replies = []\<rparr> 1 (ViewPlaylist [''Chill''])))"
  using owners_are_isolated
    [of 1 2 demo_env empty_world Start empty_world "[''X'']"]
    owners_are_isolated
    [of 1 2 demo_env "\<lparr>db = [sentinel 2 ''Chill'', chill_song], files = {}, replies = []\<rparr>"
        "DeletePlaylist [''Chill'']"
        "\<lparr>db = [sentinel 2 ''Chill'', chill_song], files = {}, replies = []\<rparr>" "[''Chill'']"]
    owners_are_isolated
    [of 1 2 demo_env "\<lparr>db = [chill_song], files = {}, replies = []\<rparr>"
        "ViewPlaylist [''Chill'']"
        "\<lparr>db = [sentinel 2 ''Chill'', chill_song], files = {}, replies = []\<rparr>" "[''Chill'']"]
  by (simp add: demo_defs pkey_def create_playlist_def delete_playlist_def view_playlist_def
      sql_insert_def sql_delete_def sql_select_songs_def in_playlist_def reply_text_def Let_def)

section \<open>Playlist names with spaces\<close>

lemma py_join_has_space:
  "2 \<le> length args \<Longrightarrow> CHR '' '' \<in> set (py_join '' '' args)"
  by (induction "'' ''" args rule: py_join.induct) auto

lemma token_has_no_space:
  "is_token a \<Longrightarrow> CHR '' '' \<notin> set a"
  by (auto simp: is_token_def is_space_def)

lemma add_to_playlist_inserts_under_first_arg:
  "db (fst (add_to_playlist e w uid args)) = db w
   \<or> (\<not> length args < 2
      \<and> (\<exists>t u. db (fst (add_to_playlist e w uid args)) =
            db w @ [\<lparr>user_id = uid, playlist_name = hd args, song_title = t, song_url = u\<rparr>]))"
proof -
  obtain F f t where d: "\<And>w. download_audio e w (py_join '' '' (tl args)) uid =
      (w\<lparr>files := files w \<union> F\<rparr>, f, t)"
    using download_audio_frame by blast
  show ?thesis
    by (auto simp: add_to_playlist_def d sql_insert_def Let_def reply_text_def
        split: option.splits)
qed

text \<open>
  Claim C10. Command arguments are whitespace-free tokens. The add command
  stores under its first argument only: whatever it inserts is a row named
  \<open>hd args\<close>, so for every playlist name that contains a space the rows of that
  name are the same before and after any add. The create, view and delete
  commands join all their arguments: with two or more arguments the name
  contains a space, create inserts its sentinel, view lists its songs and delete
  removes its rows.
\<close>

theorem add_cannot_target_spaced_name:
  "(\<forall>a \<in> set args. is_token a) \<longrightarrow>
     (db (fst (add_to_playlist e w uid args)) = db w
      \<or> (\<exists>t u. db (fst (add_to_playlist e w uid args)) =
            db w @ [\<lparr>user_id = uid, playlist_name = hd args, song_title = t, song_url = u\<rparr>]))
     \<and> (CHR '' '' \<in> set name \<longrightarrow>
          filter (\<lambda>r. playlist_name r = name) (db (fst (add_to_playlist e w uid args))) =
          filter (\<lambda>r. playlist_name r = name) (db w))
     \<and> (2 \<le> length args \<longrightarrow>
          CHR '' '' \<in> set (py_join '' '' args)
          \<and> (\<not> connect_fault e \<and> \<not> execute_fault e \<and> \<not> commit_fault e \<longrightarrow>
               (pkey (sentinel uid (py_join '' '' args)) \<notin> pkey ` set (db w) \<longrightarrow>
                  db (fst (create_playlist e w uid args)) =
                    db w @ [sentinel uid (py_join '' '' args)])
               \<and> (sql_select_songs (db w) uid (py_join '' '' args) \<noteq> [] \<longrightarrow>
                  replies (fst (view_playlist e w uid args)) =
                    replies w @
                      [Text (''Playlist '' @ apostrophe @ py_join '' '' args @ apostrophe @ '':''
                              @ newline
                              @ py_join newline
                                  (map song_line
                                     (sql_select_songs (db w) uid (py_join '' '' args))))])
               \<and> (\<forall>r \<in> set (db (fst (delete_playlist e w uid args))).
                     \<not> (user_id r = uid \<and> playlist_name r = py_join '' '' args))))"
proof (intro impI)
  assume tok: "\<forall>a \<in> set args. is_token a"
  have ins: "db (fst (add_to_playlist e w uid args)) = db w
      \<or> (\<not> length args < 2
        \<and> (\<exists>t u. db (fst (add_to_playlist e w uid args)) =
            db w @ [\<lparr>user_id = uid, playlist_name = hd args, song_title = t, song_url = u\<rparr>]))"
    by (rule add_to_playlist_inserts_under_first_arg)
  have untouched: "filter (\<lambda>r. playlist_name r = name) (db (fst (add_to_playlist e w uid args))) =
          filter (\<lambda>r. playlist_name r = name) (db w)" if sp: "CHR '' '' \<in> set name"
  proof -
    have "hd args \<noteq> name" if "\<not> length args < 2"
    proof -
      from that have "hd args \<in> set args" by (cases args) auto
      then have "CHR '' '' \<notin> set (hd args)" using tok token_has_no_space by blast
      then show ?thesis using sp by auto
    qed
    then show ?thesis using ins by auto
  qed
  have spaced: "CHR '' '' \<in> set (py_join '' '' args)" if "2 \<le> length args"
    using that by (rule py_join_has_space)
  have ne: "args \<noteq> []" if "2 \<le> length args" using that by auto
  have cr: "db (fst (create_playlist e w uid args)) = db w @ [sentinel uid (py_join '' '' args)]"
    if "2 \<le> length args" "\<not> connect_fault e \<and> \<not> execute_fault e \<and> \<not> commit_fault e"
      "pkey (sentinel uid (py_join '' '' args)) \<notin> pkey ` set (db w)"
    using that ne by (simp add: create_playlist_fresh)
  have vw: "replies (fst (view_playlist e w uid args)) =
       replies w @
         [Text (''Playlist '' @ apostrophe @ py_join '' '' args @ apostrophe @ '':'' @ newline
                 @ py_join newline
                     (map song_line (sql_select_songs (db w) uid (py_join '' '' args))))]"
    if "2 \<le> length args" "\<not> connect_fault e \<and> \<not> execute_fault e \<and> \<not> commit_fault e"
      "sql_select_songs (db w) uid (py_join '' '' args) \<noteq> []"
    using that ne by (simp add: view_playlist_def Let_def reply_text_def)
  have dl: "\<forall>r \<in> set (db (fst (delete_playlist e w uid args))).
       \<not> (user_id r = uid \<and> playlist_name r = py_join '' '' args)"
    if "2 \<le> length args" "\<not> connect_fault e \<and> \<not> execute_fault e \<and> \<not> commit_fault e"
    using that ne
    by (auto simp: delete_playlist_def Let_def reply_text_def sql_delete_def in_playlist_def)
  show "(db (fst (add_to_playlist e w uid args)) = db w
      \<or> (\<exists>t u. db (fst (add_to_playlist e w uid args)) =
            db w @ [\<lparr>user_id = uid, playlist_name = hd args, song_title = t, song_url = u\<rparr>]))
     \<and> (CHR '' '' \<in> set name \<longrightarrow>
          filter (\<lambda>r. playlist_name r = name) (db (fst (add_to_playlist e w uid args))) =
          filter (\<lambda>r. playlist_name r = name) (db w))
     \<and> (2 \<le> length args \<longrightarrow>
          CHR '' '' \<in> set (py_join '' '' args)
          \<and> (\<not> connect_fault e \<and> \<not> execute_fault e \<and> \<not> commit_fault e \<longrightarrow>
               (pkey (sentinel uid (py_join '' '' args)) \<notin> pkey ` set (db w) \<longrightarrow>
                  db (fst (create_playlist e w uid args)) =
                    db w @ [sentinel uid (py_join '' '' args)])
               \<and> (sql_select_songs (db w) uid (py_join '' '' args) \<noteq> [] \<longrightarrow>
                  replies (fst (view_playlist e w uid args)) =
                    replies w @
                      [Text (''Playlist '' @ apostrophe @ py_join '' '' args @ apostrophe @ '':''
                              @ newline
                              @ py_join newline
                                  (map song_line
                                     (sql_select_songs (db w) uid (py_join '' '' args))))])
               \<and> (\<forall>r \<in> set (db (fst (delete_playlist e w uid args))).
                     \<not> (user_id r = uid \<and> playlist_name r = py_join '' '' args))))"
    using ins untouched spaced cr vw dl by blast
qed

theorem add_cannot_target_spaced_name_witness:
  "db (fst (add_to_playlist demo_env \<lparr>db = [sentinel 1 ''Road Trip''], files = {}, replies = []\<rparr> 1
        [''Road'', ''Trip'', ''https://example/track1''])) =
       [sentinel 1 ''Road Trip'',
        \<lparr>user_id = 1, playlist_name = ''Road'', song_title = ''Song'',
         song_url = ''https://www.youtube.com/watch?v=Trip https://example/track1''\<rparr>]
   \<and> db (fst (create_playlist demo_env empty_world 1 [''Road'', ''Trip''])) =
       [sentinel 1 ''Road Trip'']"
  using add_cannot_target_spaced_name
    [of "[''Road'', ''Trip'', ''https://example/track1'']" demo_env
        "\<lparr>db = [sentinel 1 ''Road Trip''], files = {}, replies = []\<rparr>" 1 "''Road Trip''"]
    add_cannot_target_spaced_name
    [of "[''Road'', ''Trip'']" demo_env empty_world 1 "''Road Trip''"]
  by (simp add: demo_defs add_eval_defs is_token_def is_space_def create_playlist_def)

end
